theory Spec2Isabelle
  imports Main "HOL-Library.Word"
begin

section \<open>Strings and input lines\<close>

text \<open>
  Go strings are byte sequences; they are modelled as \<open>string\<close> (lists of 8-bit characters).
  \<open>strings.ToLower\<close> is modelled on the ASCII letters; the source only compares its result with
  ASCII literals, and no non-ASCII rune lower-cases to an ASCII letter of those literals.
\<close>

definition lower_char :: "char \<Rightarrow> char" where
  "lower_char c = (case c of Char b0 b1 b2 b3 b4 b5 b6 b7 \<Rightarrow>
     if (65::nat) \<le> of_char c \<and> of_char c \<le> (90::nat)
     then Char b0 b1 b2 b3 b4 True b6 b7 else c)"

definition ToLower :: "string \<Rightarrow> string" where
  "ToLower s = map lower_char s"

fun HasPrefix :: "string \<Rightarrow> string \<Rightarrow> bool" where
  "HasPrefix s [] = True"
| "HasPrefix [] (p # ps) = False"
| "HasPrefix (c # cs) (p # ps) = (c = p \<and> HasPrefix cs ps)"

text \<open>
  The UTF-8 encodings of the runes for which \<open>unicode.IsSpace\<close> holds: tab, line feed,
  vertical tab, form feed, carriage return, space, U+0085, U+00A0, U+1680, U+2000 to U+200A,
  U+2028, U+2029, U+202F, U+205F and U+3000.
\<close>

definition space_runes :: "string list" where
  "space_runes =
     [[CHR 0x09], [CHR 0x0A], [CHR 0x0B], [CHR 0x0C], [CHR 0x0D], [CHR 0x20],
      [CHR 0xC2, CHR 0x85], [CHR 0xC2, CHR 0xA0],
      [CHR 0xE1, CHR 0x9A, CHR 0x80],
      [CHR 0xE2, CHR 0x80, CHR 0x80], [CHR 0xE2, CHR 0x80, CHR 0x81],
      [CHR 0xE2, CHR 0x80, CHR 0x82], [CHR 0xE2, CHR 0x80, CHR 0x83],
      [CHR 0xE2, CHR 0x80, CHR 0x84], [CHR 0xE2, CHR 0x80, CHR 0x85],
      [CHR 0xE2, CHR 0x80, CHR 0x86], [CHR 0xE2, CHR 0x80, CHR 0x87],
      [CHR 0xE2, CHR 0x80, CHR 0x88], [CHR 0xE2, CHR 0x80, CHR 0x89],
      [CHR 0xE2, CHR 0x80, CHR 0x8A],
      [CHR 0xE2, CHR 0x80, CHR 0xA8], [CHR 0xE2, CHR 0x80, CHR 0xA9],
      [CHR 0xE2, CHR 0x80, CHR 0xAF], [CHR 0xE2, CHR 0x81, CHR 0x9F],
      [CHR 0xE3, CHR 0x80, CHR 0x80]]"

text \<open>
  Dropping leading runes of a list of encodings, one rune per step; every encoding has a
  byte, so as many steps as the string has bytes end the loop.
\<close>

primrec trim_runes :: "string list \<Rightarrow> nat \<Rightarrow> string \<Rightarrow> string" where
  "trim_runes runes 0 s = s"
| "trim_runes runes (Suc n) s =
     (case find (HasPrefix s) runes of
        None \<Rightarrow> s
      | Some r \<Rightarrow> trim_runes runes n (drop (length r) s))"

text \<open>\<open>strings.TrimSpace\<close>: the leading and the trailing white space runes are removed; the
  trailing ones are the leading ones of the reversed string, with the encodings reversed.\<close>

definition TrimSpace :: "string \<Rightarrow> string" where
  "TrimSpace s =
     (let l = trim_runes space_runes (length s) s
      in rev (trim_runes (map rev space_runes) (length l) (rev l)))"

fun Contains :: "string \<Rightarrow> string \<Rightarrow> bool" where
  "Contains [] substr = (substr = [])"
| "Contains (c # cs) substr = (HasPrefix (c # cs) substr \<or> Contains cs substr)"

section \<open>Errors\<close>

text \<open>
  A Go \<open>error\<close> value. The source distinguishes errors by dynamic type
  (\<open>BucketDoesNotExist\<close>), by the code of an S3 error response (\<open>minio.ErrorResponse\<close>) and
  by the text of \<open>Error()\<close>. Every error carries that text; an error response also carries
  its code.
\<close>

datatype go_error =
    BucketDoesNotExist string
  | ErrorResponse string string
  | OtherError string

fun Error :: "go_error \<Rightarrow> string" where
  "Error (BucketDoesNotExist message) = message"
| "Error (ErrorResponse code message) = message"
| "Error (OtherError message) = message"

text \<open>\<open>minio.ToErrorResponse(err).Code\<close>: the code of an error response, empty for any other error.\<close>

fun ToErrorResponse_Code :: "go_error \<Rightarrow> string" where
  "ToErrorResponse_Code (ErrorResponse code message) = code"
| "ToErrorResponse_Code (BucketDoesNotExist message) = []"
| "ToErrorResponse_Code (OtherError message) = []"

fun is_BucketDoesNotExist :: "go_error \<Rightarrow> bool" where
  "is_BucketDoesNotExist (BucketDoesNotExist message) = True"
| "is_BucketDoesNotExist (ErrorResponse code message) = False"
| "is_BucketDoesNotExist (OtherError message) = False"

definition EOF :: go_error where
  "EOF = OtherError ''EOF''"

text \<open>
  Modelled from the spec: \<open>probe.Error\<close> with \<open>NewError\<close>, \<open>Trace\<close> and \<open>ToGoError\<close> is
  declared in package \<open>pkg/probe\<close>, outside the files embedded here. As the spec says of
  every error value, it carries an underlying cause and context: the cause, and a call
  trace of tags. \<open>NewError\<close> wraps a cause and records a first trace point; \<open>Trace\<close> appends
  a trace point holding the given tags and leaves the cause as it is; \<open>ToGoError\<close> gives the
  cause back.
\<close>

record probe_Error =
  Cause :: go_error
  CallTrace :: "string list list"

definition NewError :: "go_error \<Rightarrow> probe_Error" where
  "NewError e = \<lparr>Cause = e, CallTrace = [[]]\<rparr>"

definition Trace :: "string list \<Rightarrow> probe_Error \<Rightarrow> probe_Error" where
  "Trace tags e = e\<lparr>CallTrace := CallTrace e @ [tags]\<rparr>"

definition ToGoError :: "probe_Error \<Rightarrow> go_error" where
  "ToGoError e = Cause e"

text \<open>
  Modelled from the spec: \<open>fatalIf\<close> and the \<open>errInvalid...\<close> constructors are declared in
  other files of the package. As the spec says, any component failure aborts the bootstrap:
  \<open>fatalIf\<close> with a non-nil error prints the message and exits the process, and does
  nothing with a nil error. A run may also end by showing the help or by the panic of a nil
  pointer dereference.
\<close>

datatype exit =
    Fatal probe_Error string
  | FatalInvalid string
  | ShowCommandHelpAndExit
  | RuntimePanic

section \<open>Reading standard input\<close>

text \<open>
  Standard input is the sequence of bytes not yet read. \<open>ReadString('\n')\<close> returns the
  line with its delimiter, or the error \<open>EOF\<close> when the input ends before a delimiter.
  \<open>ReadLine\<close> returns the line without its end-of-line bytes (lines shorter than the
  reader's buffer); the source ignores its error. Both also give what the reader has not
  handed out; what of it is still on standard input afterwards is \<open>reader_dropped\<close> below.
\<close>

definition ReadString_nl :: "string \<Rightarrow> (go_error + string) \<times> string" where
  "ReadString_nl inp =
     (if CHR 0x0A \<in> set inp
      then (Inr (takeWhile (\<lambda>c. c \<noteq> CHR 0x0A) inp @ [CHR 0x0A]),
            tl (dropWhile (\<lambda>c. c \<noteq> CHR 0x0A) inp))
      else (Inl EOF, []))"

definition ReadLine :: "string \<Rightarrow> string \<times> string" where
  "ReadLine inp =
     (let line = takeWhile (\<lambda>c. c \<noteq> CHR 0x0A) inp;
          rest = dropWhile (\<lambda>c. c \<noteq> CHR 0x0A) inp
      in (if rest \<noteq> [] \<and> line \<noteq> [] \<and> last line = CHR 0x0D then butlast line else line,
          tl rest))"

section \<open>Time\<close>

text \<open>
  A \<open>time.Time\<close> is the number of nanoseconds since the Unix epoch, a \<open>time.Duration\<close> a number
  of nanoseconds. The zero \<open>time.Time\<close> of Go is January 1 of year 1, not the Unix epoch.
\<close>

type_synonym Time = int
type_synonym Duration = int

definition Minute :: Duration where
  "Minute = 60 * 1000000000"

definition Hour :: Duration where
  "Hour = 60 * Minute"

definition time_Add :: "Time \<Rightarrow> Duration \<Rightarrow> Time" where
  "time_Add t d = t + d"

definition time_Unix :: "int \<Rightarrow> int \<Rightarrow> Time" where
  "time_Unix sec nsec = sec * 1000000000 + nsec"

definition zeroTime :: Time where
  "zeroTime = - 62135596800 * 1000000000"

definition CmdLDAPEnabled :: string where
  "CmdLDAPEnabled = ''CONSOLE_LDAP_ENABLED''"

definition StsDefaultExpire :: Duration where
  "StsDefaultExpire = Hour * 1"

definition StsWindowTime :: Duration where
  "StsWindowTime = Minute * 10"

section \<open>Certificates, trust pools and the program state\<close>

type_synonym byte = "8 word"

record Certificate =
  Raw :: "byte list"
  SubjectKeyId :: "byte list"
  AuthorityKeyId :: "byte list"
  RawSubjectPublicKeyInfo :: "byte list"

text \<open>A \<open>*x509.CertPool\<close>: nil, or the address of a pool in the store of pools.\<close>

datatype pool_ptr = NilPool | PoolAt nat

record tls_Config =
  RootCAs :: pool_ptr
  InsecureSkipVerify :: bool
  MinVersion :: nat

record http_Transport =
  TLSClientConfig :: "tls_Config option"

record http_Client =
  Transport :: http_Transport

datatype pem_Block = PemBlock string "byte list"

record aliasMessage =
  op :: string
  Alias :: string
  URL :: string
  AccessKey :: string
  SecretKey :: string
  API :: string
  Path :: string

record Config =
  AccessKey :: string
  SecretKey :: string
  SessionToken :: string
  Signature :: string
  HostURL :: string
  Insecure :: bool
  Debug :: bool
  Transport :: "http_Transport option"

record aliasConfigV10 =
  URL :: string
  AccessKey :: string
  SecretKey :: string
  SessionToken :: string
  API :: string
  Path :: string
  AType :: string
  StsAccessKey :: string
  StsSecretKey :: string
  StsSessionTk :: string
  ExpireTime :: Time

text \<open>
  The records \<open>aliasMessage\<close>, \<open>Config\<close> and \<open>aliasConfigV10\<close> have the fields the source
  reads and writes. The network requests issued and what is written to the terminal are
  logged in the state, in the order they happen.
\<close>

datatype call =
    TrustedGet string
  | InsecureGet string
  | StsRequest string
  | S3NewCall string string
  | S3StatCall string string

datatype printed =
    EnterAccessKey
  | EnterSecretKey
  | Newline
  | FingerprintPrompt string "byte list"
  | PrintMsg aliasMessage

record state =
  pools :: "nat \<Rightarrow> Certificate list"
  globalRootCAs :: pool_ptr
  stdin :: string
  stdout :: "printed list"
  CAsDir :: "string \<rightharpoonup> pem_Block"
  mcConfig :: "string \<rightharpoonup> aliasConfigV10"
  calls :: "call list"

datatype stat_result =
    S3NewFailed probe_Error
  | StatOk
  | StatFailed probe_Error

record cli_Context =
  Args :: "string list"
  Flags :: "string \<Rightarrow> string"

text \<open>
  Everything the command reads from outside, as parameters: the global flags, the
  environment, the clock (read once, before the identity exchange), the answers of the
  network and of the file system, and the helpers that other files of the package declare
  (\<open>cleanAlias\<close>, \<open>trimTrailingSeparator\<close>, the validators, \<open>getScheme\<close>, \<open>randString\<close>,
  \<open>urlJoinPath\<close>, \<open>NewS3Config\<close>, loading and saving the configuration file).
  \<open>S3Stat\<close> answers \<open>S3New\<close> followed by \<open>Stat\<close> for a configuration.
\<close>

record world =
  globalInsecure :: bool
  globalJSON :: bool
  globalDebug :: bool
  stdoutIsTerminal :: bool
  stdinIsTerminal :: bool
  environ :: "string \<rightharpoonup> string"
  timeNow :: Time
  cleanAlias :: "string \<Rightarrow> string"
  trimTrailingSeparator :: "string \<Rightarrow> string"
  isValidAlias :: "string \<Rightarrow> bool"
  isValidHostURL :: "string \<Rightarrow> bool"
  isValidAccessKey :: "string \<Rightarrow> bool"
  isValidSecretKey :: "string \<Rightarrow> bool"
  isValidAPI :: "string \<Rightarrow> bool"
  isValidLookup :: "string \<Rightarrow> bool"
  isValidPath :: "string \<Rightarrow> bool"
  ReadPassword :: string
  requestScheme :: "string \<Rightarrow> go_error + string"
  trustedDo :: "string \<Rightarrow> go_error option"
  insecureDo :: "string \<Rightarrow> go_error + Certificate list option"
  WriteFile :: "string \<Rightarrow> go_error option"
  getScheme :: "string \<Rightarrow> string"
  credsGet :: "http_Client \<Rightarrow> string \<Rightarrow> string \<Rightarrow> string \<Rightarrow> Duration
                 \<Rightarrow> go_error + string \<times> string \<times> string"
  randString :: string
  urlJoinPath :: "string \<Rightarrow> string \<Rightarrow> string"
  S3Stat :: "Config \<Rightarrow> stat_result"
  NewS3Config :: "string \<Rightarrow> aliasConfigV10 \<Rightarrow> Config"
  loadMcConfigErr :: "probe_Error option"
  saveMcConfigErr :: "probe_Error option"
  mustGetMcConfigPath :: string
  globalMCConfigVersion :: string

text \<open>
  What is still unread on standard input once a \<open>bufio.Reader\<close> over it is dropped, given
  what the reader had not handed out: a terminal delivers one line per read, so the rest is
  still there; from a pipe or a file the reader has taken what was there into its buffer,
  and that is lost with the reader.
\<close>

definition reader_dropped :: "world \<Rightarrow> string \<Rightarrow> string" where
  "reader_dropped w unread = (if stdinIsTerminal w then unread else [])"

definition env_Get :: "world \<Rightarrow> string \<Rightarrow> string \<Rightarrow> string" where
  "env_Get w key dflt = (case environ w key of Some v \<Rightarrow> v | None \<Rightarrow> dflt)"

definition args_Get :: "string list \<Rightarrow> nat \<Rightarrow> string" where
  "args_Get args n = (if n < length args then args ! n else [])"

text \<open>
  \<open>CertPool.AddCert\<close>: a certificate already in the pool is not added twice; on a nil pool
  the call dereferences nil and panics (\<open>None\<close>).
\<close>

definition pool_add :: "Certificate list \<Rightarrow> Certificate \<Rightarrow> Certificate list" where
  "pool_add pool c = (if Raw c \<in> set (map Raw pool) then pool else pool @ [c])"

definition AddCert :: "pool_ptr \<Rightarrow> Certificate \<Rightarrow> state \<Rightarrow> state option" where
  "AddCert p c s =
     (case p of
        NilPool \<Rightarrow> None
      | PoolAt a \<Rightarrow> Some (s\<lparr>pools := (pools s)(a := pool_add (pools s a) c)\<rparr>))"

text \<open>The certificates a TLS configuration trusts, identified by their raw bytes as the pool
  identifies them: those of the pool it points to (\<open>None\<close> for a nil pool, where Go falls
  back to the roots of the host).\<close>

definition trust_set :: "state \<Rightarrow> pool_ptr \<Rightarrow> byte list set option" where
  "trust_set s p = (case p of NilPool \<Rightarrow> None | PoolAt a \<Rightarrow> Some (set (map Raw (pools s a))))"

section \<open>Signature probing\<close>

text \<open>
  \<open>configurePeerCertificate\<close> adds the peer certificate to the root CAs of the configuration.
  The configuration is passed by pointer in the source; the model returns the updated one.
\<close>

definition addToGlobalRootCAs :: "Certificate \<Rightarrow> state \<Rightarrow> state" where
  "addToGlobalRootCAs peerCert s =
     (if globalRootCAs s \<noteq> NilPool
      then (case AddCert (globalRootCAs s) peerCert s of Some s' \<Rightarrow> s' | None \<Rightarrow> s)
      else s)"

definition configurePeerCertificate :: "Config \<Rightarrow> Certificate \<Rightarrow> state \<Rightarrow> Config \<times> state" where
  "configurePeerCertificate s3Config peerCert s =
     (case Config.Transport s3Config of
        None \<Rightarrow>
          (let s1 = addToGlobalRootCAs peerCert s
           in (s3Config\<lparr>Config.Transport := Some \<lparr>TLSClientConfig =
                 Some \<lparr>RootCAs = globalRootCAs s1, InsecureSkipVerify = False, MinVersion = 0\<rparr>\<rparr>\<rparr>, s1))
      | Some t \<Rightarrow>
          (if TLSClientConfig t = None \<or> RootCAs (the (TLSClientConfig t)) = NilPool
           then (let s1 = addToGlobalRootCAs peerCert s
                 in (s3Config\<lparr>Config.Transport := Some (t\<lparr>TLSClientConfig :=
                       Some \<lparr>RootCAs = globalRootCAs s1, InsecureSkipVerify = False, MinVersion = 0\<rparr>\<rparr>)\<rparr>, s1))
           else (case AddCert (RootCAs (the (TLSClientConfig t))) peerCert s of
                   Some s1 \<Rightarrow> (s3Config, s1)
                 | None \<Rightarrow> (s3Config, s))))"

text \<open>
  One probe attempt (the closure \<open>probeSignatureType\<close> of \<open>probeS3Signature\<close>): the signature
  is stored in the shared configuration, a client is made and a stat is issued.
\<close>

definition probeSignatureType ::
  "world \<Rightarrow> Config \<Rightarrow> string \<Rightarrow> state \<Rightarrow> (probe_Error + string) \<times> Config \<times> state" where
  "probeSignatureType w s3Config stype s =
     (let cfg = s3Config\<lparr>Signature := stype\<rparr>;
          s1 = s\<lparr>calls := calls s @ [S3NewCall stype (HostURL cfg)]\<rparr>
      in case S3Stat w cfg of
           S3NewFailed err \<Rightarrow> (Inl err, cfg, s1)
         | StatOk \<Rightarrow> (Inr stype, cfg, s1\<lparr>calls := calls s1 @ [S3StatCall stype (HostURL cfg)]\<rparr>)
         | StatFailed err \<Rightarrow>
             (let s2 = s1\<lparr>calls := calls s1 @ [S3StatCall stype (HostURL cfg)]\<rparr>
              in if is_BucketDoesNotExist (ToGoError err) then (Inr stype, cfg, s2)
                 else if ToErrorResponse_Code (ToGoError err) = ''AccessDenied''
                 then (Inr stype, cfg, s2)
                 else (Inl (Trace [Signature cfg] err), cfg, s2)))"

text \<open>The configuration \<open>probeS3Signature\<close> builds for its probe bucket before the attempts.\<close>

definition probeS3Config ::
  "world \<Rightarrow> string \<Rightarrow> string \<Rightarrow> string \<Rightarrow> string \<Rightarrow> Certificate option \<Rightarrow> state
     \<Rightarrow> Config \<times> state" where
  "probeS3Config w accessKey secretKey sessionToken url peerCert s =
     (let probeBucketName = randString w;
          s3Config = \<lparr>Config.AccessKey = accessKey, Config.SecretKey = secretKey,
                      Config.SessionToken = sessionToken, Signature = [],
                      HostURL = urlJoinPath w url probeBucketName,
                      Insecure = globalInsecure w, Debug = globalDebug w,
                      Config.Transport = None\<rparr>
      in case peerCert of
           Some c \<Rightarrow> configurePeerCertificate s3Config c s
         | None \<Rightarrow> (s3Config, s))"

definition probeS3Signature ::
  "world \<Rightarrow> string \<Rightarrow> string \<Rightarrow> string \<Rightarrow> string \<Rightarrow> Certificate option \<Rightarrow> state
     \<Rightarrow> (probe_Error + string) \<times> state" where
  "probeS3Signature w accessKey secretKey sessionToken url peerCert s =
     (case probeS3Config w accessKey secretKey sessionToken url peerCert s of
        (s3Config, s1) \<Rightarrow>
          (case probeSignatureType w s3Config ''s3v4'' s1 of
             (Inr stype, cfg1, s2) \<Rightarrow> (Inr stype, s2)
           | (Inl err, cfg1, s2) \<Rightarrow>
               (case probeSignatureType w cfg1 ''s3v2'' s2 of
                  (Inl err2, cfg2, s3) \<Rightarrow> (Inl (Trace [''s3v4'', ''s3v2''] err2), s3)
                | (Inr stype, cfg2, s3) \<Rightarrow> (Inr stype, s3))))"

text \<open>The signatures for which a client was requested, in order.\<close>

fun probed_signatures :: "call list \<Rightarrow> string list" where
  "probed_signatures [] = []"
| "probed_signatures (S3NewCall stype host # cs) = stype # probed_signatures cs"
| "probed_signatures (TrustedGet u # cs) = probed_signatures cs"
| "probed_signatures (InsecureGet u # cs) = probed_signatures cs"
| "probed_signatures (StsRequest u # cs) = probed_signatures cs"
| "probed_signatures (S3StatCall stype host # cs) = probed_signatures cs"

definition BuildS3Config ::
  "world \<Rightarrow> string \<Rightarrow> string \<Rightarrow> string \<Rightarrow> string \<Rightarrow> string \<Rightarrow> string \<Rightarrow> string
     \<Rightarrow> Certificate option \<Rightarrow> state \<Rightarrow> (probe_Error + Config) \<times> state" where
  "BuildS3Config w url alias accessKey secretKey sessionToken api path peerCert s =
     (let s3Config0 = NewS3Config w url
            \<lparr>aliasConfigV10.URL = url, aliasConfigV10.AccessKey = accessKey,
             aliasConfigV10.SecretKey = secretKey, aliasConfigV10.SessionToken = sessionToken,
             aliasConfigV10.API = [], aliasConfigV10.Path = path, AType = [],
             StsAccessKey = [], StsSecretKey = [], StsSessionTk = [], ExpireTime = zeroTime\<rparr>;
          (s3Config, s1) = (case peerCert of
                              Some c \<Rightarrow> configurePeerCertificate s3Config0 c s
                            | None \<Rightarrow> (s3Config0, s))
      in if api \<noteq> [] then (Inr (s3Config\<lparr>Signature := api\<rparr>), s1)
         else (case probeS3Signature w accessKey secretKey sessionToken url peerCert s1 of
                 (Inl err, s2) \<Rightarrow> (Inl (Trace [url, accessKey, secretKey, [], path] err), s2)
               | (Inr probed, s2) \<Rightarrow> (Inr (s3Config\<lparr>Signature := probed\<rparr>), s2)))"

section \<open>Trust negotiation\<close>

definition fetchPeerCertificate :: "world \<Rightarrow> string \<Rightarrow> state \<Rightarrow> (go_error + Certificate) \<times> state" where
  "fetchPeerCertificate w endpoint s =
     (case requestScheme w endpoint of
        Inl err \<Rightarrow> (Inl err, s)
      | Inr scheme \<Rightarrow>
          (let s1 = s\<lparr>calls := calls s @ [InsecureGet endpoint]\<rparr>
           in case insecureDo w endpoint of
                Inl err \<Rightarrow> (Inl err, s1)
              | Inr None \<Rightarrow> (Inl (OtherError ''Unable to read remote TLS certificate''), s1)
              | Inr (Some []) \<Rightarrow> (Inl (OtherError ''Unable to read remote TLS certificate''), s1)
              | Inr (Some (c # cs)) \<Rightarrow> (Inr c, s1)))"

text \<open>
  \<open>promptTrustSelfSignedCert\<close>: the result is the pinned certificate (\<open>Some\<close>), no certificate
  (\<open>None\<close>, the nil of the source) or an error. The certificate file is written under the name
  \<open>alias + ".crt"\<close> in the CAs directory.
\<close>

definition promptTrustSelfSignedCert ::
  "world \<Rightarrow> string \<Rightarrow> string \<Rightarrow> state \<Rightarrow> (probe_Error + Certificate option) \<times> state" where
  "promptTrustSelfSignedCert w endpoint alias s =
     (case requestScheme w endpoint of
        Inl err \<Rightarrow> (Inl (NewError err), s)
      | Inr scheme \<Rightarrow>
          if scheme = ''http'' then (Inr None, s)
          else
            (let s1 = s\<lparr>calls := calls s @ [TrustedGet endpoint]\<rparr>
             in case trustedDo w endpoint of
                  None \<Rightarrow> (Inr None, s1)
                | Some tlsErr \<Rightarrow>
                    if \<not> Contains (Error tlsErr) ''certificate signed by unknown authority''
                    then (Inl (NewError tlsErr), s1)
                    else
                      (case fetchPeerCertificate w endpoint s1 of
                         (Inl err, s2) \<Rightarrow> (Inl (NewError err), s2)
                       | (Inr peerCert, s2) \<Rightarrow>
                           if SubjectKeyId peerCert \<noteq> AuthorityKeyId peerCert
                           then (Inl (NewError tlsErr), s2)
                           else
                             (let s3 = s2\<lparr>stdout := stdout s2 @
                                    [FingerprintPrompt alias (RawSubjectPublicKeyInfo peerCert)]\<rparr>
                              in case ReadString_nl (stdin s3) of
                                   (Inl err, rest) \<Rightarrow>
                                     (Inl (NewError err), s3\<lparr>stdin := reader_dropped w rest\<rparr>)
                                 | (Inr answer, rest) \<Rightarrow>
                                     (let s4 = s3\<lparr>stdin := reader_dropped w rest\<rparr>
                                      in if ToLower answer \<noteq> ''y'' @ [CHR 0x0A]
                                            \<and> ToLower answer \<noteq> ''yes'' @ [CHR 0x0A]
                                         then (Inl (NewError tlsErr), s4)
                                         else
                                           (case WriteFile w (alias @ ''.crt'') of
                                              Some err \<Rightarrow> (Inl (NewError err), s4)
                                            | None \<Rightarrow>
                                                (Inr (Some peerCert),
                                                 s4\<lparr>CAsDir := (CAsDir s4)(alias @ ''.crt'' \<mapsto>
                                                   PemBlock ''CERTIFICATE'' (Raw peerCert))\<rparr>)))))))"

section \<open>Federated identity exchange\<close>

text \<open>
  \<open>prepareStsClient\<close>; \<open>None\<close> is the panic of \<open>cas.AddCert\<close> on a nil pool. Of the transport
  only the TLS configuration is kept.
\<close>

definition prepareStsClient ::
  "world \<Rightarrow> Certificate option \<Rightarrow> string \<Rightarrow> state \<Rightarrow> (http_Client \<times> state) option" where
  "prepareStsClient w peerCert url s =
     (case (if globalRootCAs s \<noteq> NilPool
            then (case (case peerCert of
                          Some c \<Rightarrow> AddCert (globalRootCAs s) c s
                        | None \<Rightarrow> Some s) of
                    None \<Rightarrow> None
                  | Some s1 \<Rightarrow> Some (globalRootCAs s1, s1))
            else Some (NilPool, s)) of
        None \<Rightarrow> None
      | Some (cas, s1) \<Rightarrow>
          (case (case peerCert of Some c \<Rightarrow> AddCert cas c s1 | None \<Rightarrow> Some s1) of
             None \<Rightarrow> None
           | Some s2 \<Rightarrow>
               (let schem = getScheme w url;
                    insecure = (schem \<noteq> ''http'' \<and> peerCert \<noteq> None)
                in Some (\<lparr>http_Client.Transport = \<lparr>TLSClientConfig =
                            Some \<lparr>RootCAs = cas, InsecureSkipVerify = insecure,
                                  MinVersion = 771\<rparr>\<rparr>\<rparr>, s2))))"

definition getStsWithLDAP ::
  "world \<Rightarrow> string \<Rightarrow> string \<Rightarrow> string \<Rightarrow> Certificate option \<Rightarrow> state
     \<Rightarrow> (go_error + string \<times> string \<times> string) option \<times> state" where
  "getStsWithLDAP w endpoint ldapUser ldapPassword peerCert s =
     (case prepareStsClient w peerCert endpoint s of
        None \<Rightarrow> (None, s)
      | Some (client, s1) \<Rightarrow>
          (let s2 = s1\<lparr>calls := calls s1 @ [StsRequest endpoint]\<rparr>
           in case credsGet w client endpoint ldapUser ldapPassword StsDefaultExpire of
                Inl err \<Rightarrow> (Some (Inl err), s2)
              | Inr (accessKeyID, secretAccessKey, sessionToken) \<Rightarrow>
                  (Some (Inr (accessKeyID, secretAccessKey, sessionToken)), s2)))"

section \<open>The alias set command\<close>

text \<open>
  \<open>fetchAliasKeys\<close> reads the keys that are not among the arguments. One \<open>bufio.Reader\<close>
  serves both \<open>ReadLine\<close> calls and is dropped when the function returns.
\<close>

definition fetchAliasKeys :: "world \<Rightarrow> string list \<Rightarrow> state \<Rightarrow> (string \<times> string) \<times> state" where
  "fetchAliasKeys w args s =
     (let isTerminal = stdinIsTerminal w;
          argsNr = length args;
          (accessKey, s1) =
            (if argsNr = 2
             then (let s' = (if isTerminal then s\<lparr>stdout := stdout s @ [EnterAccessKey]\<rparr> else s);
                       (val, rest) = ReadLine (stdin s')
                   in (val, s'\<lparr>stdin := rest\<rparr>))
             else (args_Get args 2, s));
          (secretKey, s2) =
            (if argsNr = 2 \<or> argsNr = 3
             then (if isTerminal
                   then (ReadPassword w, s1\<lparr>stdout := stdout s1 @ [EnterSecretKey, Newline]\<rparr>)
                   else (let (val, rest) = ReadLine (stdin s1) in (val, s1\<lparr>stdin := rest\<rparr>)))
             else (args_Get args 3, s1));
          readerUsed = (argsNr = 2 \<or> (argsNr = 3 \<and> \<not> isTerminal))
      in ((accessKey, secretKey),
          if readerUsed then s2\<lparr>stdin := reader_dropped w (stdin s2)\<rparr> else s2))"

text \<open>\<open>checkAliasSetSyntax\<close>: \<open>None\<close> when the arguments pass, otherwise how the command exits.\<close>

definition checkAliasSetSyntax ::
  "world \<Rightarrow> cli_Context \<Rightarrow> string \<Rightarrow> string \<Rightarrow> bool \<Rightarrow> exit option" where
  "checkAliasSetSyntax w ctx accessKey secretKey deprecated =
     (let args = Args ctx;
          argsNr = length args
      in if argsNr = 0 then Some ShowCommandHelpAndExit
         else if argsNr > 4 \<or> argsNr < 2
         then Some (FatalInvalid ''Incorrect number of arguments for alias set command.'')
         else
           (let alias = cleanAlias w (args_Get args 0);
                url = args_Get args 1;
                api = Flags ctx ''api'';
                path = Flags ctx ''path'';
                bucketLookup = Flags ctx ''lookup''
            in if \<not> isValidAlias w alias then Some (FatalInvalid ''Invalid alias.'')
               else if \<not> isValidHostURL w url then Some (FatalInvalid ''Invalid URL.'')
               else if \<not> isValidAccessKey w accessKey
               then Some (FatalInvalid (''Invalid access key `'' @ accessKey @ ''`.''))
               else if \<not> isValidSecretKey w secretKey
               then Some (FatalInvalid (''Invalid secret key `'' @ secretKey @ ''`.''))
               else if api \<noteq> [] \<and> \<not> isValidAPI w api
               then Some (FatalInvalid
                      ''Unrecognized API signature. Valid options are `[S3v4, S3v2]`.'')
               else if deprecated
               then (if \<not> isValidLookup w bucketLookup
                     then Some (FatalInvalid
                            ''Unrecognized bucket lookup. Valid options are `[dns,auto, path]`.'')
                     else None)
               else (if \<not> isValidPath w path
                     then Some (FatalInvalid
                            ''Unrecognized path value. Valid options are `[auto, on, off]`.'')
                     else None)))"

text \<open>\<open>setAlias\<close> loads the configuration, stores the record under the alias, and saves it.\<close>

definition setAlias ::
  "world \<Rightarrow> string \<Rightarrow> aliasConfigV10 \<Rightarrow> state \<Rightarrow> (exit + aliasMessage) \<times> state" where
  "setAlias w alias aliasCfgV10 s =
     (case loadMcConfigErr w of
        Some err \<Rightarrow>
          (Inl (Fatal (Trace [globalMCConfigVersion w] err)
                  (''Unable to load config `'' @ mustGetMcConfigPath w @ ''`.'')), s)
      | None \<Rightarrow>
          (let aliases = (mcConfig s)(alias \<mapsto> aliasCfgV10)
           in case saveMcConfigErr w of
                Some err \<Rightarrow>
                  (Inl (Fatal (Trace [alias] err)
                          (''Unable to update hosts in config version `''
                             @ mustGetMcConfigPath w @ ''`.'')), s)
              | None \<Rightarrow>
                  (Inr \<lparr>op = [], Alias = alias,
                        aliasMessage.URL = aliasConfigV10.URL aliasCfgV10,
                        aliasMessage.AccessKey = aliasConfigV10.AccessKey aliasCfgV10,
                        aliasMessage.SecretKey = aliasConfigV10.SecretKey aliasCfgV10,
                        aliasMessage.API = aliasConfigV10.API aliasCfgV10,
                        aliasMessage.Path = aliasConfigV10.Path aliasCfgV10\<rparr>,
                   s\<lparr>mcConfig := aliases\<rparr>)))"

text \<open>The credential kind after the \<open>switch ctype\<close> of \<open>mainAliasSet\<close>.\<close>

definition resolve_ctype :: "world \<Rightarrow> cli_Context \<Rightarrow> string" where
  "resolve_ctype w cli =
     (let ctype = Flags cli ''type''
      in if ctype = [] \<or> ctype = ''auto''
         then (if ToLower (env_Get w CmdLDAPEnabled ''off'') = ''on'' then ''ldap'' else ''normal'')
         else ctype)"

text \<open>The path after the deprecated lookup flag has been taken into account.\<close>

definition resolve_path :: "cli_Context \<Rightarrow> bool \<Rightarrow> string" where
  "resolve_path cli deprecated =
     (let path = Flags cli ''path''
      in if deprecated
         then (let lookup = ToLower (TrimSpace (Flags cli ''lookup''))
               in if lookup = [] \<or> lookup = ''auto'' then ''auto''
                  else if lookup = ''path'' then ''on''
                  else if lookup = ''dns'' then ''off''
                  else path)
         else path)"

text \<open>
  \<open>mainAliasSet\<close>: \<open>Inr ()\<close> is the return of nil; \<open>Inl\<close> is an exit of the process. The
  state is returned in both cases: what was written before an exit stays written.
\<close>

definition mainAliasSet :: "world \<Rightarrow> cli_Context \<Rightarrow> bool \<Rightarrow> state \<Rightarrow> (exit + unit) \<times> state" where
  "mainAliasSet w cli deprecated s0 =
     (let args = Args cli;
          alias = cleanAlias w (args_Get args 0);
          url = trimTrailingSeparator w (args_Get args 1);
          api = Flags cli ''api'';
          path = resolve_path cli deprecated;
          ctype = resolve_ctype w cli;
          ((accessKey, secretKey), s1) = fetchAliasKeys w args s0
      in case checkAliasSetSyntax w cli accessKey secretKey deprecated of
           Some ex \<Rightarrow> (Inl ex, s1)
         | None \<Rightarrow>
      (case (if \<not> globalInsecure w \<and> \<not> globalJSON w \<and> stdoutIsTerminal w
             then promptTrustSelfSignedCert w url alias s1
             else (Inr None, s1)) of
         (Inl err, s2) \<Rightarrow>
           (Inl (Fatal (Trace args err)
                   ''Unable to initialize new alias from the provided credentials.''), s2)
       | (Inr peerCert, s2) \<Rightarrow>
      (case (if ctype = ''ldap''
             then (let now = timeNow w
                   in case getStsWithLDAP w url accessKey secretKey peerCert s2 of
                        (None, s3) \<Rightarrow> (Inl RuntimePanic, s3)
                      | (Some (Inl e), s3) \<Rightarrow>
                          (Inl (Fatal (Trace args (NewError e))
                             ''Unable to get sts AccessKey and SecretKey with provided credentials.''),
                           s3)
                      | (Some (Inr (ak, sk, tk)), s3) \<Rightarrow>
                          (Inr (ak, sk, tk,
                                time_Add (time_Add now StsDefaultExpire) (- StsWindowTime)), s3))
             else (Inr (accessKey, secretKey, [], time_Unix 0 0), s2)) of
         (Inl ex, s3) \<Rightarrow> (Inl ex, s3)
       | (Inr (stsAccessKey, stsSecretKey, stsSessionTk, stsExpireTime), s3) \<Rightarrow>
      (case BuildS3Config w url alias stsAccessKey stsSecretKey stsSessionTk api path peerCert s3 of
         (Inl err, s4) \<Rightarrow>
           (Inl (Fatal (Trace args err)
                   ''Unable to initialize new alias from the provided credentials.''), s4)
       | (Inr s3Config, s4) \<Rightarrow>
      (case setAlias w alias
              \<lparr>aliasConfigV10.URL = HostURL s3Config,
               aliasConfigV10.AccessKey = accessKey,
               aliasConfigV10.SecretKey = secretKey,
               aliasConfigV10.SessionToken = [],
               aliasConfigV10.API = Signature s3Config,
               aliasConfigV10.Path = path,
               AType = ctype,
               StsAccessKey = stsAccessKey,
               StsSecretKey = stsSecretKey,
               StsSessionTk = stsSessionTk,
               ExpireTime = stsExpireTime\<rparr> s4 of
         (Inl ex, s5) \<Rightarrow> (Inl ex, s5)
       | (Inr msg, s5) \<Rightarrow>
           (Inr (),
            s5\<lparr>stdout := stdout s5 @
                 [PrintMsg (msg\<lparr>op := (if deprecated then ''add'' else ''set'')\<rparr>)]\<rparr>))))))"

section \<open>A mock endpoint\<close>

text \<open>
  A server at \<open>https://mock-endpoint\<close> that presents a self-signed certificate and answers
  "access denied" to a stat signed with V4; the user types "yes"; the alias is \<open>test\<close> and the
  credentials are \<open>AK\<close> and \<open>SK\<close>. Variants of it change one answer of the outside world.
\<close>

definition url_scheme :: "string \<Rightarrow> string" where
  "url_scheme u = takeWhile (\<lambda>c. c \<noteq> CHR '':'') u"

definition unknown_authority :: go_error where
  "unknown_authority = OtherError ''x509: certificate signed by unknown authority''"

definition self_signed_cert :: Certificate where
  "self_signed_cert = \<lparr>Raw = [48, 130, 1], SubjectKeyId = [7, 7], AuthorityKeyId = [7, 7],
                        RawSubjectPublicKeyInfo = [48, 89]\<rparr>"

definition foreign_cert :: Certificate where
  "foreign_cert = \<lparr>Raw = [48, 130, 2], SubjectKeyId = [7, 7], AuthorityKeyId = [9, 9],
                    RawSubjectPublicKeyInfo = [48, 90]\<rparr>"

definition v2_mismatch :: go_error where
  "v2_mismatch = ErrorResponse ''SignatureDoesNotMatch'' ''v2 signature rejected''"

definition mock_S3Stat :: "Config \<Rightarrow> stat_result" where
  "mock_S3Stat cfg =
     (if Signature cfg = ''s3v4''
      then StatFailed (NewError (ErrorResponse ''AccessDenied'' ''Access Denied.''))
      else StatFailed (NewError v2_mismatch))"

text \<open>A server that rejects both dialects; the cause of the V4 rejection is a parameter.\<close>

definition mismatch_S3Stat :: "go_error \<Rightarrow> Config \<Rightarrow> stat_result" where
  "mismatch_S3Stat v4_cause cfg =
     (if Signature cfg = ''s3v4''
      then StatFailed (NewError v4_cause)
      else StatFailed (NewError v2_mismatch))"

definition mock_NewS3Config :: "string \<Rightarrow> aliasConfigV10 \<Rightarrow> Config" where
  "mock_NewS3Config u a =
     \<lparr>Config.AccessKey = aliasConfigV10.AccessKey a, Config.SecretKey = aliasConfigV10.SecretKey a,
      Config.SessionToken = aliasConfigV10.SessionToken a, Signature = aliasConfigV10.API a,
      HostURL = u, Insecure = False, Debug = False, Config.Transport = None\<rparr>"

definition mock_world :: world where
  "mock_world =
     \<lparr>globalInsecure = False, globalJSON = False, globalDebug = False,
      stdoutIsTerminal = True, stdinIsTerminal = True,
      environ = Map.empty, timeNow = 1700000000000000000,
      cleanAlias = (\<lambda>a. a), trimTrailingSeparator = (\<lambda>u. u),
      isValidAlias = (\<lambda>a. True), isValidHostURL = (\<lambda>a. True),
      isValidAccessKey = (\<lambda>a. True), isValidSecretKey = (\<lambda>a. True),
      isValidAPI = (\<lambda>a. True), isValidLookup = (\<lambda>a. True), isValidPath = (\<lambda>a. True),
      ReadPassword = [],
      requestScheme = (\<lambda>u. Inr (url_scheme u)),
      trustedDo = (\<lambda>u. Some unknown_authority),
      insecureDo = (\<lambda>u. Inr (Some [self_signed_cert])),
      WriteFile = (\<lambda>f. None),
      getScheme = url_scheme,
      credsGet = (\<lambda>client endpoint user password expiry. Inr (''STSAK'', ''STSSK'', ''TOKEN'')),
      randString = ''probe-bucket-sign-q3x'',
      urlJoinPath = (\<lambda>u b. u @ ''/'' @ b),
      S3Stat = mock_S3Stat,
      NewS3Config = mock_NewS3Config,
      loadMcConfigErr = None, saveMcConfigErr = None,
      mustGetMcConfigPath = ''config.json'', globalMCConfigVersion = ''10''\<rparr>"

definition mismatch_world :: "go_error \<Rightarrow> world" where
  "mismatch_world v4_cause = mock_world\<lparr>S3Stat := mismatch_S3Stat v4_cause\<rparr>"

definition no_bucket_world :: world where
  "no_bucket_world =
     mock_world\<lparr>S3Stat := (\<lambda>cfg. StatFailed (NewError
                   (BucketDoesNotExist ''Bucket `probe-bucket` does not exist.'')))\<rparr>"

definition probe_cfg :: Config where
  "probe_cfg = \<lparr>Config.AccessKey = ''AK'', Config.SecretKey = ''SK'', Config.SessionToken = [],
                 Signature = [], HostURL = ''https://mock-endpoint/probe-bucket'',
                 Insecure = False, Debug = False, Config.Transport = None\<rparr>"

definition foreign_issuer_world :: world where
  "foreign_issuer_world = mock_world\<lparr>insecureDo := (\<lambda>u. Inr (Some [foreign_cert]))\<rparr>"

definition refused_world :: world where
  "refused_world =
     mock_world\<lparr>trustedDo := (\<lambda>u. Some (OtherError ''dial tcp: connection refused''))\<rparr>"

definition write_fail_world :: world where
  "write_fail_world = mock_world\<lparr>WriteFile := (\<lambda>f. Some (OtherError ''permission denied''))\<rparr>"

definition empty_token_world :: world where
  "empty_token_world =
     mock_world\<lparr>credsGet := (\<lambda>client endpoint user password expiry.
                    Inr (''STSAK'', ''STSSK'', []))\<rparr>"

definition mock_state :: state where
  "mock_state = \<lparr>pools = (\<lambda>a. []), globalRootCAs = PoolAt 0,
                  stdin = ''yes'' @ [CHR 0x0A], stdout = [],
                  CAsDir = Map.empty, mcConfig = Map.empty, calls = []\<rparr>"

text \<open>The same state when no process-wide root set was loaded.\<close>

definition nil_pool_state :: state where
  "nil_pool_state = mock_state\<lparr>globalRootCAs := NilPool\<rparr>"

definition mock_flags :: "string \<Rightarrow> string \<Rightarrow> string \<Rightarrow> string" where
  "mock_flags ctype api name =
     (if name = ''type'' then ctype
      else if name = ''api'' then api
      else if name = ''path'' then ''auto''
      else [])"

definition mock_cli :: "string \<Rightarrow> string \<Rightarrow> cli_Context" where
  "mock_cli ctype api =
     \<lparr>Args = [''test'', ''https://mock-endpoint'', ''AK'', ''SK''], Flags = mock_flags ctype api\<rparr>"

lemmas mock_defs = mock_world_def mismatch_world_def no_bucket_world_def probe_cfg_def
  foreign_issuer_world_def refused_world_def
  write_fail_world_def empty_token_world_def mock_state_def nil_pool_state_def mock_cli_def
  mock_flags_def
  mock_S3Stat_def mismatch_S3Stat_def mock_NewS3Config_def self_signed_cert_def foreign_cert_def
  unknown_authority_def v2_mismatch_def url_scheme_def

lemmas prog_defs = mainAliasSet_def resolve_ctype_def resolve_path_def fetchAliasKeys_def
  checkAliasSetSyntax_def args_Get_def promptTrustSelfSignedCert_def fetchPeerCertificate_def
  ReadString_nl_def ReadLine_def reader_dropped_def ToLower_def lower_char_def getStsWithLDAP_def
  prepareStsClient_def AddCert_def pool_add_def trust_set_def BuildS3Config_def
  configurePeerCertificate_def addToGlobalRootCAs_def probeS3Signature_def probeS3Config_def
  probeSignatureType_def ToGoError_def NewError_def Trace_def setAlias_def env_Get_def
  CmdLDAPEnabled_def time_Add_def time_Unix_def StsDefaultExpire_def StsWindowTime_def Hour_def
  Minute_def Let_def

section \<open>Auxiliary facts\<close>

lemma probed_signatures_append:
  "probed_signatures (xs @ ys) = probed_signatures xs @ probed_signatures ys"
  by (induction xs rule: probed_signatures.induct) simp_all

lemma probeSignatureType_result_indep:
  "fst (probeSignatureType w cfg stype s) = fst (probeSignatureType w cfg stype s')"
  by (simp add: probeSignatureType_def Let_def split: stat_result.splits)

lemma probeSignatureType_config:
  "fst (snd (probeSignatureType w cfg stype s)) = cfg\<lparr>Signature := stype\<rparr>"
  by (simp add: probeSignatureType_def Let_def split: stat_result.splits)

lemma probeSignatureType_probed:
  "probed_signatures (calls (snd (snd (probeSignatureType w cfg stype s))))
     = probed_signatures (calls s) @ [stype]"
  by (simp add: probeSignatureType_def Let_def probed_signatures_append
        split: stat_result.splits)

lemma addToGlobalRootCAs_calls: "calls (addToGlobalRootCAs c s) = calls s"
  by (simp add: addToGlobalRootCAs_def AddCert_def split: pool_ptr.splits)

lemma configurePeerCertificate_calls:
  "calls (snd (configurePeerCertificate cfg c s)) = calls s"
  by (simp add: configurePeerCertificate_def Let_def addToGlobalRootCAs_calls AddCert_def
        split: option.splits pool_ptr.splits)

lemma probeS3Config_calls:
  "calls (snd (probeS3Config w accessKey secretKey sessionToken url peerCert s)) = calls s"
  by (cases peerCert) (simp_all add: probeS3Config_def Let_def configurePeerCertificate_calls)

text \<open>Every run of the probe leaves a client request in the log.\<close>

lemma probing_is_logged:
  "probed_signatures (calls (snd (probeS3Signature w accessKey secretKey sessionToken url peerCert s)))
     \<noteq> probed_signatures (calls s)"
proof -
  obtain cfg s1 where c: "probeS3Config w accessKey secretKey sessionToken url peerCert s = (cfg, s1)"
    by (cases "probeS3Config w accessKey secretKey sessionToken url peerCert s") auto
  have s1: "calls s1 = calls s"
    using probeS3Config_calls [of w accessKey secretKey sessionToken url peerCert s] c by simp
  obtain r4 c4 s2 where p4: "probeSignatureType w cfg ''s3v4'' s1 = (r4, c4, s2)"
    by (cases "probeSignatureType w cfg ''s3v4'' s1") auto
  have l4: "probed_signatures (calls s2) = probed_signatures (calls s) @ [''s3v4'']"
    using probeSignatureType_probed [of w cfg "''s3v4''" s1] p4 s1 by simp
  obtain r2 c2 s3 where p2: "probeSignatureType w c4 ''s3v2'' s2 = (r2, c2, s3)"
    by (cases "probeSignatureType w c4 ''s3v2'' s2") auto
  have l2: "probed_signatures (calls s3) = probed_signatures (calls s) @ [''s3v4'', ''s3v2'']"
    using probeSignatureType_probed [of w c4 "''s3v2''" s2] p2 l4 by simp
  show ?thesis
    using c p4 p2 l4 l2
    by (simp add: probeS3Signature_def split: sum.splits)
qed

lemma setAlias_success:
  assumes "setAlias w alias r s = (Inr msg, s')"
  shows "mcConfig s' alias = Some r"
  using assms by (auto simp add: setAlias_def Let_def split: option.splits)

lemma getStsWithLDAP_tokens:
  assumes "getStsWithLDAP w endpoint ldapUser ldapPassword peerCert s
             = (Some (Inr (ak, sk, tk)), s')"
  shows "\<exists>client. credsGet w client endpoint ldapUser ldapPassword StsDefaultExpire
                     = Inr (ak, sk, tk)"
  using assms
  by (auto simp add: getStsWithLDAP_def Let_def split: option.splits sum.splits prod.splits)

lemma sts_expiry:
  "time_Add (time_Add t StsDefaultExpire) (- StsWindowTime) = t + 50 * Minute"
  by (simp add: time_Add_def StsDefaultExpire_def StsWindowTime_def Hour_def Minute_def)

text \<open>What a run of \<open>mainAliasSet\<close> that returns has persisted under the alias.\<close>

lemma mainAliasSet_success:
  assumes "mainAliasSet w cli deprecated s = (Inr (), s')"
  shows "\<exists>r. mcConfig s' (cleanAlias w (args_Get (Args cli) 0)) = Some r
         \<and> aliasConfigV10.AccessKey r = fst (fst (fetchAliasKeys w (Args cli) s))
         \<and> aliasConfigV10.SecretKey r = snd (fst (fetchAliasKeys w (Args cli) s))
         \<and> AType r = resolve_ctype w cli
         \<and> (resolve_ctype w cli \<noteq> ''ldap'' \<longrightarrow>
               StsAccessKey r = aliasConfigV10.AccessKey r
             \<and> StsSecretKey r = aliasConfigV10.SecretKey r
             \<and> StsSessionTk r = []
             \<and> ExpireTime r = time_Unix 0 0)
         \<and> (resolve_ctype w cli = ''ldap'' \<longrightarrow>
               ExpireTime r = timeNow w + 50 * Minute
             \<and> (\<exists>client. credsGet w client (trimTrailingSeparator w (args_Get (Args cli) 1))
                            (aliasConfigV10.AccessKey r) (aliasConfigV10.SecretKey r)
                            StsDefaultExpire
                 = Inr (StsAccessKey r, StsSecretKey r, StsSessionTk r)))"
  using assms
  apply (simp add: mainAliasSet_def Let_def sts_expiry
           split: prod.splits option.splits sum.splits if_splits)
   apply (auto dest!: setAlias_success getStsWithLDAP_tokens)
  done

lemma mainAliasSet_success':
  assumes "fst (mainAliasSet w cli deprecated s) = Inr ()"
  shows "mainAliasSet w cli deprecated s = (Inr (), snd (mainAliasSet w cli deprecated s))"
  using assms by (cases "mainAliasSet w cli deprecated s") simp

lemma fetchAliasKeys_calls: "calls (snd (fetchAliasKeys w args s)) = calls s"
  by (simp add: fetchAliasKeys_def Let_def split: prod.splits)

lemma fetchPeerCertificate_probed:
  "probed_signatures (calls (snd (fetchPeerCertificate w endpoint s))) = probed_signatures (calls s)"
  by (simp add: fetchPeerCertificate_def Let_def probed_signatures_append
        split: sum.splits option.splits list.splits)

lemma promptTrustSelfSignedCert_probed:
  "probed_signatures (calls (snd (promptTrustSelfSignedCert w endpoint aliasName s)))
     = probed_signatures (calls s)"
proof -
  obtain r s2 where f: "fetchPeerCertificate w endpoint
                          (s\<lparr>calls := calls s @ [TrustedGet endpoint]\<rparr>) = (r, s2)"
    by (cases "fetchPeerCertificate w endpoint (s\<lparr>calls := calls s @ [TrustedGet endpoint]\<rparr>)")
       auto
  have "probed_signatures (calls s2) = probed_signatures (calls s)"
    using fetchPeerCertificate_probed
            [of w endpoint "s\<lparr>calls := calls s @ [TrustedGet endpoint]\<rparr>"] f
    by (simp add: probed_signatures_append)
  then show ?thesis
    using f
    by (simp add: promptTrustSelfSignedCert_def Let_def probed_signatures_append
          split: sum.splits option.splits prod.splits)
qed

lemma prepareStsClient_calls:
  "prepareStsClient w peerCert url s = Some (client, s') \<Longrightarrow> calls s' = calls s"
  by (auto simp add: prepareStsClient_def AddCert_def Let_def
        split: option.splits pool_ptr.splits if_splits)

lemma getStsWithLDAP_probed:
  "probed_signatures (calls (snd (getStsWithLDAP w endpoint u p peerCert s)))
     = probed_signatures (calls s)"
  by (auto simp add: getStsWithLDAP_def Let_def probed_signatures_append
        dest: prepareStsClient_calls split: option.splits sum.splits prod.splits)

lemma setAlias_calls: "calls (snd (setAlias w aliasName r s)) = calls s"
  by (simp add: setAlias_def Let_def split: option.splits)

lemma BuildS3Config_explicit:
  assumes "api \<noteq> []"
  shows "\<exists>cfg s'. BuildS3Config w url aliasName accessKey secretKey sessionToken api path peerCert s
                    = (Inr cfg, s')
                  \<and> Signature cfg = api \<and> calls s' = calls s"
proof (cases peerCert)
  case None
  then show ?thesis using assms by (simp add: BuildS3Config_def)
next
  case (Some c)
  then show ?thesis using assms configurePeerCertificate_calls
    by (simp add: BuildS3Config_def Let_def split: prod.splits) (metis snd_conv)
qed

lemma fetchAliasKeys_probedD:
  "fetchAliasKeys w args s = (r, s') \<Longrightarrow> probed_signatures (calls s') = probed_signatures (calls s)"
  using fetchAliasKeys_calls [of w args s] by simp

lemma promptTrustSelfSignedCert_probedD:
  "promptTrustSelfSignedCert w endpoint aliasName s = (r, s')
     \<Longrightarrow> probed_signatures (calls s') = probed_signatures (calls s)"
  using promptTrustSelfSignedCert_probed [of w endpoint aliasName s] by simp

lemma getStsWithLDAP_probedD:
  "getStsWithLDAP w endpoint u p peerCert s = (r, s')
     \<Longrightarrow> probed_signatures (calls s') = probed_signatures (calls s)"
  using getStsWithLDAP_probed [of w endpoint u p peerCert s] by simp

lemma BuildS3Config_explicitD:
  "BuildS3Config w url aliasName accessKey secretKey sessionToken api path peerCert s = (r, s')
     \<Longrightarrow> api \<noteq> []
     \<Longrightarrow> probed_signatures (calls s') = probed_signatures (calls s)
         \<and> (\<exists>cfg. r = Inr cfg \<and> Signature cfg = api)"
  using BuildS3Config_explicit
          [of api w url aliasName accessKey secretKey sessionToken path peerCert s]
  by auto

lemma setAlias_probedD:
  "setAlias w aliasName r s = (m, s')
     \<Longrightarrow> probed_signatures (calls s') = probed_signatures (calls s)"
  using setAlias_calls [of w aliasName r s] by simp

text \<open>A bootstrap with an explicit dialect: no client is requested for a probe, and the
  record of a run that returns holds the dialect.\<close>

lemma mainAliasSet_explicit_api_probedD:
  assumes "mainAliasSet w cli deprecated s = (r, s')"
    and "Flags cli ''api'' \<noteq> []"
  shows "probed_signatures (calls s') = probed_signatures (calls s)"
  using assms
  apply (simp add: mainAliasSet_def Let_def
           split: prod.splits option.splits sum.splits if_splits)
   apply (auto dest!: fetchAliasKeys_probedD promptTrustSelfSignedCert_probedD
                     getStsWithLDAP_probedD BuildS3Config_explicitD setAlias_probedD)
  done

lemma mainAliasSet_explicit_api_record:
  assumes "mainAliasSet w cli deprecated s = (Inr (), s')"
    and "Flags cli ''api'' \<noteq> []"
  shows "map_option aliasConfigV10.API (mcConfig s' (cleanAlias w (args_Get (Args cli) 0)))
           = Some (Flags cli ''api'')"
  using assms
  apply (simp add: mainAliasSet_def Let_def
           split: prod.splits option.splits sum.splits if_splits)
   apply (auto dest!: setAlias_success BuildS3Config_explicitD)
  done

lemma fetchAliasKeys_from_args:
  assumes "length args = 4"
  shows "fetchAliasKeys w args s = ((args ! 2, args ! 3), s)"
  using assms by (simp add: fetchAliasKeys_def args_Get_def Let_def)

section \<open>The client of the federated identity exchange\<close>

text \<open>
  Claim C1, as stated: the client built by \<open>prepareStsClient\<close> skips certificate verification
  if and only if the endpoint is unencrypted, and for every encrypted endpoint verification
  is enabled with the process-wide root set plus the pinned certificate as trust set.
  This fails on the code: \<open>insecure := schem != "http" && peerCert != nil\<close>. For the
  unencrypted mock endpoint the flag is off, and for the encrypted one with a pinned
  certificate it is on.
\<close>

theorem prepareStsClient_skip_flag_counterexample:
  "getScheme mock_world ''http://mock-endpoint'' = ''http''
   \<and> map_option fst (prepareStsClient mock_world None ''http://mock-endpoint'' mock_state)
       = Some \<lparr>http_Client.Transport = \<lparr>TLSClientConfig =
           Some \<lparr>RootCAs = PoolAt 0, InsecureSkipVerify = False, MinVersion = 771\<rparr>\<rparr>\<rparr>
   \<and> getScheme mock_world ''https://mock-endpoint'' = ''https''
   \<and> map_option fst
         (prepareStsClient mock_world (Some self_signed_cert) ''https://mock-endpoint'' mock_state)
       = Some \<lparr>http_Client.Transport = \<lparr>TLSClientConfig =
           Some \<lparr>RootCAs = PoolAt 0, InsecureSkipVerify = True, MinVersion = 771\<rparr>\<rparr>\<rparr>"
  by (simp add: mock_defs prog_defs)

text \<open>
  Claim C1, amended: a client built by \<open>prepareStsClient\<close> never skips certificate
  verification for an unencrypted (http) endpoint, nor for any endpoint when no pinned
  certificate is present; and whenever the process-wide root set exists, the client is built
  with that root set as its trust set, extended by the pinned certificate when there is one.
\<close>

theorem prepareStsClient_trust_set:
  "(\<forall>client s'. prepareStsClient w peerCert url s = Some (client, s') \<longrightarrow>
      (\<exists>tc. TLSClientConfig (http_Client.Transport client) = Some tc
          \<and> (getScheme w url = ''http'' \<or> peerCert = None \<longrightarrow> \<not> InsecureSkipVerify tc)))
   \<and> (\<forall>a. globalRootCAs s = PoolAt a \<longrightarrow>
          (\<exists>tc s'. prepareStsClient w peerCert url s
                     = Some (\<lparr>http_Client.Transport = \<lparr>TLSClientConfig = Some tc\<rparr>\<rparr>, s')
                 \<and> RootCAs tc = globalRootCAs s'
                 \<and> globalRootCAs s' = PoolAt a
                 \<and> trust_set s' (RootCAs tc)
                     = Some (set (map Raw (pools s a)) \<union> set_option (map_option Raw peerCert))))"
proof (intro conjI allI impI)
  fix client s'
  assume "prepareStsClient w peerCert url s = Some (client, s')"
  then show "\<exists>tc. TLSClientConfig (http_Client.Transport client) = Some tc
          \<and> (getScheme w url = ''http'' \<or> peerCert = None \<longrightarrow> \<not> InsecureSkipVerify tc)"
    by (auto simp add: prepareStsClient_def Let_def split: option.splits if_splits)
next
  fix a
  assume "globalRootCAs s = PoolAt a"
  then show "\<exists>tc s'. prepareStsClient w peerCert url s
                     = Some (\<lparr>http_Client.Transport = \<lparr>TLSClientConfig = Some tc\<rparr>\<rparr>, s')
                 \<and> RootCAs tc = globalRootCAs s'
                 \<and> globalRootCAs s' = PoolAt a
                 \<and> trust_set s' (RootCAs tc)
                     = Some (set (map Raw (pools s a)) \<union> set_option (map_option Raw peerCert))"
    by (cases peerCert)
       (auto simp add: prepareStsClient_def AddCert_def trust_set_def pool_add_def Let_def)
qed

theorem prepareStsClient_trust_set_witness:
  "globalRootCAs nil_pool_state = NilPool
   \<and> prepareStsClient mock_world None ''https://mock-endpoint'' nil_pool_state
       = Some (\<lparr>http_Client.Transport = \<lparr>TLSClientConfig =
                  Some \<lparr>RootCAs = NilPool, InsecureSkipVerify = False, MinVersion = 771\<rparr>\<rparr>\<rparr>,
               nil_pool_state)
   \<and> globalRootCAs mock_state = PoolAt 0
   \<and> prepareStsClient mock_world None ''https://mock-endpoint'' mock_state
       = Some (\<lparr>http_Client.Transport = \<lparr>TLSClientConfig =
                  Some \<lparr>RootCAs = PoolAt 0, InsecureSkipVerify = False, MinVersion = 771\<rparr>\<rparr>\<rparr>,
               mock_state)
   \<and> trust_set mock_state (PoolAt 0) = Some {}
   \<and> prepareStsClient mock_world (Some self_signed_cert) ''http://mock-endpoint'' mock_state
       = Some (\<lparr>http_Client.Transport = \<lparr>TLSClientConfig =
                  Some \<lparr>RootCAs = PoolAt 0, InsecureSkipVerify = False, MinVersion = 771\<rparr>\<rparr>\<rparr>,
               mock_state\<lparr>pools := (pools mock_state)(0 := [self_signed_cert])\<rparr>)
   \<and> trust_set (mock_state\<lparr>pools := (pools mock_state)(0 := [self_signed_cert])\<rparr>) (PoolAt 0)
       = Some {Raw self_signed_cert}"
  using
    prepareStsClient_trust_set [where s = nil_pool_state and w = mock_world
      and peerCert = None and url = "''https://mock-endpoint''"]
    prepareStsClient_trust_set [where s = mock_state and w = mock_world
      and peerCert = None and url = "''https://mock-endpoint''"]
    prepareStsClient_trust_set [where s = mock_state and w = mock_world
      and peerCert = "Some self_signed_cert" and url = "''http://mock-endpoint''"]
  by (simp add: mock_defs prog_defs)

section \<open>The effective expiry of a federated session\<close>

text \<open>
  Claim C2: for every successful federated (ldap) bootstrap whose exchange is requested at
  time \<open>T\<close>, the expiry recorded in the persisted alias record is exactly \<open>T\<close> plus 50 minutes,
  that is \<open>T\<close> plus the validity of 1 hour minus the window of 10 minutes.
\<close>

theorem federated_expiry_is_50_minutes:
  assumes "fst (mainAliasSet w cli deprecated s) = Inr ()"
    and "resolve_ctype w cli = ''ldap''"
  shows "map_option ExpireTime
           (mcConfig (snd (mainAliasSet w cli deprecated s)) (cleanAlias w (args_Get (Args cli) 0)))
         = Some (timeNow w + 50 * Minute)
       \<and> timeNow w + 50 * Minute = timeNow w + StsDefaultExpire - StsWindowTime
       \<and> StsDefaultExpire = Hour \<and> StsWindowTime = 10 * Minute"
proof -
  from mainAliasSet_success [OF mainAliasSet_success' [OF assms(1)]] assms(2)
  have "map_option ExpireTime
           (mcConfig (snd (mainAliasSet w cli deprecated s)) (cleanAlias w (args_Get (Args cli) 0)))
         = Some (timeNow w + 50 * Minute)"
    by auto
  then show ?thesis
    by (simp add: StsDefaultExpire_def StsWindowTime_def Hour_def Minute_def)
qed

theorem federated_expiry_is_50_minutes_witness:
  "fst (mainAliasSet mock_world (mock_cli ''ldap'' []) False mock_state) = Inr ()
   \<and> resolve_ctype mock_world (mock_cli ''ldap'' []) = ''ldap''
   \<and> timeNow mock_world = 1700000000000000000
   \<and> map_option ExpireTime
       (mcConfig (snd (mainAliasSet mock_world (mock_cli ''ldap'' []) False mock_state)) ''test'')
     = Some 1700003000000000000"
  using federated_expiry_is_50_minutes [where w = mock_world and cli = "mock_cli ''ldap'' []"
      and deprecated = False and s = mock_state]
  by (simp add: mock_defs prog_defs)

section \<open>Trust negotiation\<close>

text \<open>
  Claim C3: when the fetched peer certificate has a subject-key identifier different from its
  authority-key identifier, trust negotiation rejects with the error of the untrusted issuer
  (the TLS error of the first attempt) whatever waits on standard input; nothing is printed,
  nothing is read from standard input and no certificate file is written.
\<close>

theorem foreign_issuer_rejected_unprompted:
  assumes "requestScheme w endpoint = Inr scheme"
    and "scheme \<noteq> ''http''"
    and "trustedDo w endpoint = Some tlsErr"
    and "Contains (Error tlsErr) ''certificate signed by unknown authority''"
    and "insecureDo w endpoint = Inr (Some (peerCert # rest))"
    and "SubjectKeyId peerCert \<noteq> AuthorityKeyId peerCert"
  shows "promptTrustSelfSignedCert w endpoint aliasName (s\<lparr>stdin := answer\<rparr>)
           = (Inl (NewError tlsErr),
              s\<lparr>stdin := answer, calls := calls s @ [TrustedGet endpoint, InsecureGet endpoint]\<rparr>)"
  using assms by (simp add: promptTrustSelfSignedCert_def fetchPeerCertificate_def)

theorem foreign_issuer_rejected_unprompted_witness:
  "fst (promptTrustSelfSignedCert foreign_issuer_world ''https://mock-endpoint'' ''test''
          (mock_state\<lparr>stdin := ''yes'' @ [CHR 0x0A]\<rparr>))
     = Inl (NewError unknown_authority)
   \<and> stdout (snd (promptTrustSelfSignedCert foreign_issuer_world ''https://mock-endpoint'' ''test''
          (mock_state\<lparr>stdin := ''yes'' @ [CHR 0x0A]\<rparr>))) = []
   \<and> stdin (snd (promptTrustSelfSignedCert foreign_issuer_world ''https://mock-endpoint'' ''test''
          (mock_state\<lparr>stdin := ''yes'' @ [CHR 0x0A]\<rparr>))) = ''yes'' @ [CHR 0x0A]
   \<and> CAsDir (snd (promptTrustSelfSignedCert foreign_issuer_world ''https://mock-endpoint'' ''test''
          (mock_state\<lparr>stdin := ''yes'' @ [CHR 0x0A]\<rparr>))) ''test.crt'' = None"
  using foreign_issuer_rejected_unprompted [where w = foreign_issuer_world
      and endpoint = "''https://mock-endpoint''" and scheme = "''https''"
      and tlsErr = unknown_authority and peerCert = foreign_cert and rest = "[]"
      and aliasName = "''test''" and s = mock_state and answer = "''yes'' @ [CHR 0x0A]"]
  by (simp add: mock_defs prog_defs)

section \<open>Signature probing\<close>

text \<open>
  Claim C4, as stated: probing tries V4 first, tries V2 only when the V4 attempt fails, and
  when both fail the error carries both underlying causes. The last part fails on the
  code: \<open>err\<close> is overwritten by the V2 attempt and \<open>err.Trace("s3v4", "s3v2")\<close> only adds the
  two names as tags. Two servers that reject V4 for different reasons and V2 for the same
  reason give the same error, whose cause is the V2 one.
\<close>

theorem exhausted_probe_drops_v4_cause_counterexample:
  "fst (probeS3Signature (mismatch_world (ErrorResponse ''SignatureDoesNotMatch'' ''v4 rejected''))
          ''AK'' ''SK'' [] ''https://mock-endpoint'' None mock_state)
     = Inl \<lparr>Cause = v2_mismatch, CallTrace = [[], [''s3v2''], [''s3v4'', ''s3v2'']]\<rparr>
   \<and> fst (probeS3Signature (mismatch_world (OtherError ''connection reset by peer''))
          ''AK'' ''SK'' [] ''https://mock-endpoint'' None mock_state)
     = Inl \<lparr>Cause = v2_mismatch, CallTrace = [[], [''s3v2''], [''s3v4'', ''s3v2'']]\<rparr>"
  by (simp add: mock_defs prog_defs)

text \<open>
  Claim C4, amended: probing tries V4 first and tries V2 only when the V4 attempt fails;
  when both attempts fail it fails with the error of the V2 attempt, to which the tags
  \<open>s3v4\<close> and \<open>s3v2\<close> are added; the cause of the V4 failure is not carried.
\<close>

theorem probeS3Signature_order:
  assumes "probeS3Config w accessKey secretKey sessionToken url peerCert s = (cfg, s1)"
  shows "probed_signatures
           (calls (snd (probeS3Signature w accessKey secretKey sessionToken url peerCert s)))
           = probed_signatures (calls s) @
               (case fst (probeSignatureType w cfg ''s3v4'' s1) of
                  Inr stype \<Rightarrow> [''s3v4'']
                | Inl err \<Rightarrow> [''s3v4'', ''s3v2''])
         \<and> fst (probeS3Signature w accessKey secretKey sessionToken url peerCert s)
           = (case fst (probeSignatureType w cfg ''s3v4'' s1) of
                Inr stype \<Rightarrow> Inr stype
              | Inl err \<Rightarrow>
                  (case fst (probeSignatureType w (cfg\<lparr>Signature := ''s3v4''\<rparr>) ''s3v2'' s1) of
                     Inr stype \<Rightarrow> Inr stype
                   | Inl err2 \<Rightarrow>
                       Inl \<lparr>Cause = Cause err2,
                            CallTrace = CallTrace err2 @ [[''s3v4'', ''s3v2'']]\<rparr>))"
proof -
  have s1: "calls s1 = calls s"
    using probeS3Config_calls [of w accessKey secretKey sessionToken url peerCert s] assms
    by simp
  obtain r4 c4 s2 where p4: "probeSignatureType w cfg ''s3v4'' s1 = (r4, c4, s2)"
    by (cases "probeSignatureType w cfg ''s3v4'' s1") auto
  have c4: "c4 = cfg\<lparr>Signature := ''s3v4''\<rparr>"
    using probeSignatureType_config [of w cfg "''s3v4''" s1] p4 by simp
  have l4: "probed_signatures (calls s2) = probed_signatures (calls s) @ [''s3v4'']"
    using probeSignatureType_probed [of w cfg "''s3v4''" s1] p4 s1 by simp
  obtain r2 c2 s3 where p2: "probeSignatureType w c4 ''s3v2'' s2 = (r2, c2, s3)"
    by (cases "probeSignatureType w c4 ''s3v2'' s2") auto
  have l2: "probed_signatures (calls s3) = probed_signatures (calls s) @ [''s3v4'', ''s3v2'']"
    using probeSignatureType_probed [of w c4 "''s3v2''" s2] p2 l4 by simp
  have r2: "fst (probeSignatureType w (cfg\<lparr>Signature := ''s3v4''\<rparr>) ''s3v2'' s1) = r2"
    using probeSignatureType_result_indep [of w c4 "''s3v2''" s1 s2] p2 c4 by simp
  show ?thesis
    using assms p4 p2 l4 l2 r2
    by (simp add: probeS3Signature_def Trace_def split: sum.splits)
qed

theorem probeS3Signature_order_witness:
  "probed_signatures (calls (snd (probeS3Signature mock_world ''AK'' ''SK'' []
       ''https://mock-endpoint'' (Some self_signed_cert) mock_state))) = [''s3v4'']
   \<and> fst (probeS3Signature mock_world ''AK'' ''SK'' []
       ''https://mock-endpoint'' (Some self_signed_cert) mock_state) = Inr ''s3v4''
   \<and> probed_signatures (calls (snd (probeS3Signature (mismatch_world (OtherError ''timeout''))
       ''AK'' ''SK'' [] ''https://mock-endpoint'' (Some self_signed_cert) mock_state)))
       = [''s3v4'', ''s3v2'']
   \<and> fst (probeS3Signature (mismatch_world (OtherError ''timeout''))
       ''AK'' ''SK'' [] ''https://mock-endpoint'' (Some self_signed_cert) mock_state)
       = Inl \<lparr>Cause = v2_mismatch, CallTrace = [[], [''s3v2''], [''s3v4'', ''s3v2'']]\<rparr>"
  using
    probeS3Signature_order [where w = mock_world and accessKey = "''AK''" and secretKey = "''SK''"
      and sessionToken = "[]" and url = "''https://mock-endpoint''"
      and peerCert = "Some self_signed_cert" and s = mock_state
      and cfg = "fst (probeS3Config mock_world ''AK'' ''SK'' [] ''https://mock-endpoint''
                        (Some self_signed_cert) mock_state)"
      and ?s1.0 = "snd (probeS3Config mock_world ''AK'' ''SK'' [] ''https://mock-endpoint''
                        (Some self_signed_cert) mock_state)"]
    probeS3Signature_order [where w = "mismatch_world (OtherError ''timeout'')"
      and accessKey = "''AK''" and secretKey = "''SK''"
      and sessionToken = "[]" and url = "''https://mock-endpoint''"
      and peerCert = "Some self_signed_cert" and s = mock_state
      and cfg = "fst (probeS3Config (mismatch_world (OtherError ''timeout'')) ''AK'' ''SK'' []
                        ''https://mock-endpoint'' (Some self_signed_cert) mock_state)"
      and ?s1.0 = "snd (probeS3Config (mismatch_world (OtherError ''timeout'')) ''AK'' ''SK'' []
                        ''https://mock-endpoint'' (Some self_signed_cert) mock_state)"]
  by (simp add: mock_defs prog_defs)

text \<open>
  Claim C5: in a probe attempt under a dialect, a stat that fails with "bucket does not
  exist" or with the code "AccessDenied" makes the attempt return that dialect as accepted;
  any other error of the attempt (of the stat, or of making the client) is returned as the
  error of that dialect, the stat's error tagged with the dialect.
\<close>

theorem probeSignatureType_classifies:
  "fst (probeSignatureType w s3Config stype s) =
     (case S3Stat w (s3Config\<lparr>Signature := stype\<rparr>) of
        StatFailed err \<Rightarrow>
          (if is_BucketDoesNotExist (Cause err)
              \<or> ToErrorResponse_Code (Cause err) = ''AccessDenied''
           then Inr stype
           else Inl \<lparr>Cause = Cause err, CallTrace = CallTrace err @ [[stype]]\<rparr>)
      | S3NewFailed err \<Rightarrow> Inl err
      | StatOk \<Rightarrow> Inr stype)"
  by (simp add: probeSignatureType_def Let_def ToGoError_def Trace_def
        split: stat_result.splits)

theorem probeSignatureType_classifies_witness:
  "fst (probeSignatureType mock_world probe_cfg ''s3v4'' mock_state) = Inr ''s3v4''
   \<and> fst (probeSignatureType mock_world probe_cfg ''s3v2'' mock_state)
       = Inl \<lparr>Cause = v2_mismatch, CallTrace = [[], [''s3v2'']]\<rparr>
   \<and> fst (probeSignatureType no_bucket_world probe_cfg ''s3v2'' mock_state) = Inr ''s3v2''"
  using
    probeSignatureType_classifies [where w = mock_world and ?s3Config.0 = probe_cfg
      and stype = "''s3v4''" and s = mock_state]
    probeSignatureType_classifies [where w = mock_world and ?s3Config.0 = probe_cfg
      and stype = "''s3v2''" and s = mock_state]
    probeSignatureType_classifies [where w = no_bucket_world and ?s3Config.0 = probe_cfg
      and stype = "''s3v2''" and s = mock_state]
  by (simp add: mock_defs prog_defs)

section \<open>Building the S3 configuration\<close>

text \<open>
  Claim C6: when the caller supplies a signature dialect (\<open>api\<close> is not empty),
  \<open>BuildS3Config\<close> returns a configuration whose signature is the supplied value verbatim
  and issues no network call: no client is made and no stat is sent, so no probing happens
  (a probe always leaves a client request in the log, \<open>probing_is_logged\<close>). A bootstrap run
  with that dialect requests no client for a probe, however it ends, and when it returns,
  the dialect field of the alias record it has persisted is the supplied value verbatim.
\<close>

theorem explicit_api_skips_probing:
  assumes "api \<noteq> []"
  shows "(\<exists>cfg s'. BuildS3Config w url aliasName accessKey secretKey sessionToken api path
                      peerCert s = (Inr cfg, s')
                  \<and> Signature cfg = api
                  \<and> calls s' = calls s
                  \<and> probed_signatures (calls s') = probed_signatures (calls s))
       \<and> (Flags cli ''api'' = api \<longrightarrow>
             probed_signatures (calls (snd (mainAliasSet w cli deprecated s0)))
               = probed_signatures (calls s0)
           \<and> (fst (mainAliasSet w cli deprecated s0) = Inr () \<longrightarrow>
                 map_option aliasConfigV10.API
                   (mcConfig (snd (mainAliasSet w cli deprecated s0))
                      (cleanAlias w (args_Get (Args cli) 0)))
                 = Some api))"
proof (intro conjI impI)
  show "\<exists>cfg s'. BuildS3Config w url aliasName accessKey secretKey sessionToken api path
                      peerCert s = (Inr cfg, s')
                  \<and> Signature cfg = api
                  \<and> calls s' = calls s
                  \<and> probed_signatures (calls s') = probed_signatures (calls s)"
    using BuildS3Config_explicit [OF assms] by metis
next
  assume "Flags cli ''api'' = api"
  with assms have "Flags cli ''api'' \<noteq> []" by simp
  then show "probed_signatures (calls (snd (mainAliasSet w cli deprecated s0)))
               = probed_signatures (calls s0)"
    using mainAliasSet_explicit_api_probedD [of w cli deprecated s0]
    by (cases "mainAliasSet w cli deprecated s0") simp
next
  assume a: "Flags cli ''api'' = api"
    and r: "fst (mainAliasSet w cli deprecated s0) = Inr ()"
  from assms a have "Flags cli ''api'' \<noteq> []" by simp
  with mainAliasSet_explicit_api_record [OF mainAliasSet_success' [OF r]] a
  show "map_option aliasConfigV10.API
          (mcConfig (snd (mainAliasSet w cli deprecated s0))
             (cleanAlias w (args_Get (Args cli) 0)))
        = Some api"
    by simp
qed

theorem explicit_api_skips_probing_witness:
  "fst (BuildS3Config mock_world ''https://mock-endpoint'' ''test'' ''AK'' ''SK'' [] ''S3v2''
          ''auto'' (Some self_signed_cert) mock_state)
     = Inr \<lparr>Config.AccessKey = ''AK'', Config.SecretKey = ''SK'', Config.SessionToken = [],
            Signature = ''S3v2'', HostURL = ''https://mock-endpoint'', Insecure = False,
            Debug = False,
            Config.Transport = Some \<lparr>TLSClientConfig =
              Some \<lparr>RootCAs = PoolAt 0, InsecureSkipVerify = False, MinVersion = 0\<rparr>\<rparr>\<rparr>
   \<and> calls (snd (BuildS3Config mock_world ''https://mock-endpoint'' ''test'' ''AK'' ''SK'' []
          ''S3v2'' ''auto'' (Some self_signed_cert) mock_state)) = []
   \<and> Flags (mock_cli ''normal'' ''S3v2'') ''api'' = ''S3v2''
   \<and> fst (mainAliasSet mock_world (mock_cli ''normal'' ''S3v2'') False mock_state) = Inr ()
   \<and> probed_signatures
        (calls (snd (mainAliasSet mock_world (mock_cli ''normal'' ''S3v2'') False mock_state)))
       = []
   \<and> map_option aliasConfigV10.API
        (mcConfig (snd (mainAliasSet mock_world (mock_cli ''normal'' ''S3v2'') False mock_state))
           ''test'')
       = Some ''S3v2''"
  using explicit_api_skips_probing [where api = "''S3v2''" and w = mock_world
      and url = "''https://mock-endpoint''" and aliasName = "''test''" and accessKey = "''AK''"
      and secretKey = "''SK''" and sessionToken = "[]" and path = "''auto''"
      and peerCert = "Some self_signed_cert" and s = mock_state
      and cli = "mock_cli ''normal'' ''S3v2''" and deprecated = False and ?s0.0 = mock_state]
  by (simp add: mock_defs prog_defs)

section \<open>The persisted record\<close>

text \<open>
  Claim C7, as stated: a static bootstrap records an empty session token and a zero expiry;
  a federated one records a non-empty session token and an expiry strictly in the future.
  The non-empty token fails on the code, which stores whatever token the exchange returned
  without looking at it: when the token service answers with an empty session token, the
  federated record holds an empty one.
\<close>

theorem federated_empty_token_counterexample:
  "fst (mainAliasSet empty_token_world (mock_cli ''ldap'' []) False mock_state) = Inr ()
   \<and> map_option AType
       (mcConfig (snd (mainAliasSet empty_token_world (mock_cli ''ldap'' []) False mock_state))
          ''test'') = Some ''ldap''
   \<and> map_option StsSessionTk
       (mcConfig (snd (mainAliasSet empty_token_world (mock_cli ''ldap'' []) False mock_state))
          ''test'') = Some []"
  by (simp add: mock_defs prog_defs)

text \<open>
  Claim C7, amended: for every successful bootstrap with a static (non-ldap) credential kind
  the persisted record has an empty session token and a session expiry equal to the Unix
  epoch \<open>time.Unix(0, 0)\<close>; for every successful federated bootstrap the session token is the
  one the identity exchange returned for the supplied credentials, and the session expiry
  is strictly later than the time read when the exchange was requested.
\<close>

theorem session_fields_by_kind:
  assumes "fst (mainAliasSet w cli deprecated s) = Inr ()"
  shows "\<exists>r. mcConfig (snd (mainAliasSet w cli deprecated s))
                (cleanAlias w (args_Get (Args cli) 0)) = Some r
           \<and> AType r = resolve_ctype w cli
           \<and> (AType r \<noteq> ''ldap'' \<longrightarrow> StsSessionTk r = [] \<and> ExpireTime r = time_Unix 0 0)
           \<and> (AType r = ''ldap'' \<longrightarrow>
                 (\<exists>client ak sk.
                     credsGet w client (trimTrailingSeparator w (args_Get (Args cli) 1))
                       (aliasConfigV10.AccessKey r) (aliasConfigV10.SecretKey r) StsDefaultExpire
                     = Inr (ak, sk, StsSessionTk r))
               \<and> timeNow w < ExpireTime r)"
proof -
  from mainAliasSet_success [OF mainAliasSet_success' [OF assms]]
  obtain r where r: "mcConfig (snd (mainAliasSet w cli deprecated s))
                (cleanAlias w (args_Get (Args cli) 0)) = Some r"
      "AType r = resolve_ctype w cli"
      "resolve_ctype w cli \<noteq> ''ldap'' \<longrightarrow> StsSessionTk r = [] \<and> ExpireTime r = time_Unix 0 0"
      "resolve_ctype w cli = ''ldap'' \<longrightarrow>
               ExpireTime r = timeNow w + 50 * Minute
             \<and> (\<exists>client. credsGet w client (trimTrailingSeparator w (args_Get (Args cli) 1))
                            (aliasConfigV10.AccessKey r) (aliasConfigV10.SecretKey r)
                            StsDefaultExpire
                 = Inr (StsAccessKey r, StsSecretKey r, StsSessionTk r))"
    by auto
  have "timeNow w < timeNow w + 50 * Minute"
    by (simp add: Minute_def)
  with r show ?thesis
    by (intro exI [of _ r]) auto
qed

theorem session_fields_by_kind_witness:
  "fst (mainAliasSet mock_world (mock_cli ''normal'' []) False mock_state) = Inr ()
   \<and> map_option StsSessionTk
       (mcConfig (snd (mainAliasSet mock_world (mock_cli ''normal'' []) False mock_state))
          ''test'') = Some []
   \<and> map_option ExpireTime
       (mcConfig (snd (mainAliasSet mock_world (mock_cli ''normal'' []) False mock_state))
          ''test'') = Some 0
   \<and> fst (mainAliasSet mock_world (mock_cli ''ldap'' []) False mock_state) = Inr ()
   \<and> map_option StsSessionTk
       (mcConfig (snd (mainAliasSet mock_world (mock_cli ''ldap'' []) False mock_state))
          ''test'') = Some ''TOKEN''
   \<and> timeNow mock_world = 1700000000000000000
   \<and> map_option ExpireTime
       (mcConfig (snd (mainAliasSet mock_world (mock_cli ''ldap'' []) False mock_state))
          ''test'') = Some 1700003000000000000"
  using
    session_fields_by_kind [where w = mock_world and cli = "mock_cli ''normal'' []"
      and deprecated = False and s = mock_state]
    session_fields_by_kind [where w = mock_world and cli = "mock_cli ''ldap'' []"
      and deprecated = False and s = mock_state]
  by (simp add: mock_defs prog_defs)

text \<open>
  Claim C10: for every successful bootstrap with the federated (ldap) credential kind, the
  persisted alias record holds the user-supplied LDAP username and password in its
  access-key and secret-key fields (the third and fourth arguments when four are given),
  and holds in separate fields the access key, secret key and session token that the token
  service returned for that username and password.
\<close>

theorem federated_record_keeps_ldap_credentials:
  assumes "fst (mainAliasSet w cli deprecated s) = Inr ()"
    and "resolve_ctype w cli = ''ldap''"
  shows "\<exists>r client.
           mcConfig (snd (mainAliasSet w cli deprecated s))
             (cleanAlias w (args_Get (Args cli) 0)) = Some r
         \<and> aliasConfigV10.AccessKey r = fst (fst (fetchAliasKeys w (Args cli) s))
         \<and> aliasConfigV10.SecretKey r = snd (fst (fetchAliasKeys w (Args cli) s))
         \<and> (length (Args cli) = 4 \<longrightarrow>
               aliasConfigV10.AccessKey r = Args cli ! 2 \<and> aliasConfigV10.SecretKey r = Args cli ! 3)
         \<and> credsGet w client (trimTrailingSeparator w (args_Get (Args cli) 1))
               (aliasConfigV10.AccessKey r) (aliasConfigV10.SecretKey r) StsDefaultExpire
             = Inr (StsAccessKey r, StsSecretKey r, StsSessionTk r)"
proof -
  from mainAliasSet_success [OF mainAliasSet_success' [OF assms(1)]] assms(2)
  obtain r client where r:
      "mcConfig (snd (mainAliasSet w cli deprecated s))
             (cleanAlias w (args_Get (Args cli) 0)) = Some r"
      "aliasConfigV10.AccessKey r = fst (fst (fetchAliasKeys w (Args cli) s))"
      "aliasConfigV10.SecretKey r = snd (fst (fetchAliasKeys w (Args cli) s))"
      "credsGet w client (trimTrailingSeparator w (args_Get (Args cli) 1))
               (aliasConfigV10.AccessKey r) (aliasConfigV10.SecretKey r) StsDefaultExpire
             = Inr (StsAccessKey r, StsSecretKey r, StsSessionTk r)"
    by auto
  have "length (Args cli) = 4 \<longrightarrow>
          aliasConfigV10.AccessKey r = Args cli ! 2 \<and> aliasConfigV10.SecretKey r = Args cli ! 3"
    using r(2,3) by (simp add: fetchAliasKeys_from_args)
  with r show ?thesis
    by (intro exI [of _ r] exI [of _ client]) simp
qed

theorem federated_record_keeps_ldap_credentials_witness:
  "fst (mainAliasSet mock_world (mock_cli ''ldap'' []) False mock_state) = Inr ()
   \<and> resolve_ctype mock_world (mock_cli ''ldap'' []) = ''ldap''
   \<and> mcConfig (snd (mainAliasSet mock_world (mock_cli ''ldap'' []) False mock_state)) ''test''
       = Some \<lparr>aliasConfigV10.URL = ''https://mock-endpoint'',
               aliasConfigV10.AccessKey = ''AK'', aliasConfigV10.SecretKey = ''SK'',
               aliasConfigV10.SessionToken = [], aliasConfigV10.API = ''s3v4'',
               aliasConfigV10.Path = ''auto'', AType = ''ldap'',
               StsAccessKey = ''STSAK'', StsSecretKey = ''STSSK'', StsSessionTk = ''TOKEN'',
               ExpireTime = 1700003000000000000\<rparr>"
  using federated_record_keeps_ldap_credentials [where w = mock_world
      and cli = "mock_cli ''ldap'' []" and deprecated = False and s = mock_state]
  by (simp add: mock_defs prog_defs)

section \<open>Confirmation and the failures of the first attempt\<close>

text \<open>
  Claim C8, as stated: for a self-signed certificate, any answer other than "y" or "yes"
  (in any case) is rejected and writes no certificate, and a pinned certificate is returned
  and stored if and only if the answer is affirmative. The second part fails on the code
  when the certificate file cannot be written: the user answers "yes", \<open>os.WriteFile\<close>
  fails, and the error of the write is returned instead of the certificate.
\<close>

theorem affirmative_answer_write_failure_counterexample:
  "ReadString_nl (stdin mock_state) = (Inr (''yes'' @ [CHR 0x0A]), [])
   \<and> ToLower (''yes'' @ [CHR 0x0A]) = ''yes'' @ [CHR 0x0A]
   \<and> fst (promptTrustSelfSignedCert write_fail_world ''https://mock-endpoint'' ''test'' mock_state)
       = Inl (NewError (OtherError ''permission denied''))
   \<and> CAsDir (snd (promptTrustSelfSignedCert write_fail_world ''https://mock-endpoint'' ''test''
        mock_state)) ''test.crt'' = None"
  by (simp add: mock_defs prog_defs)

text \<open>
  Claim C8, amended: for a self-signed certificate and a line of answer read from standard
  input, any answer other than "y" or "yes" followed by the newline (in any case) is
  rejected with the TLS error of the first attempt and no certificate file is written; the
  pinned certificate is returned if and only if the answer is affirmative and the write of
  the certificate file succeeds; whenever it is returned it has been stored under the
  alias, and whenever it is not returned an error is returned and the certificate store is
  unchanged.
\<close>

theorem confirmation_decides_pinning:
  assumes "requestScheme w endpoint = Inr scheme"
    and "scheme \<noteq> ''http''"
    and "trustedDo w endpoint = Some tlsErr"
    and "Contains (Error tlsErr) ''certificate signed by unknown authority''"
    and "insecureDo w endpoint = Inr (Some (peerCert # rest))"
    and "SubjectKeyId peerCert = AuthorityKeyId peerCert"
    and "ReadString_nl (stdin s) = (Inr answer, remaining)"
  shows "(ToLower answer \<noteq> ''y'' @ [CHR 0x0A] \<and> ToLower answer \<noteq> ''yes'' @ [CHR 0x0A]
            \<longrightarrow> fst (promptTrustSelfSignedCert w endpoint aliasName s) = Inl (NewError tlsErr)
                \<and> CAsDir (snd (promptTrustSelfSignedCert w endpoint aliasName s)) = CAsDir s)
       \<and> (fst (promptTrustSelfSignedCert w endpoint aliasName s) = Inr (Some peerCert)
            \<longleftrightarrow> (ToLower answer = ''y'' @ [CHR 0x0A] \<or> ToLower answer = ''yes'' @ [CHR 0x0A])
                \<and> WriteFile w (aliasName @ ''.crt'') = None)
       \<and> (fst (promptTrustSelfSignedCert w endpoint aliasName s) = Inr (Some peerCert)
            \<longrightarrow> CAsDir (snd (promptTrustSelfSignedCert w endpoint aliasName s))
                    (aliasName @ ''.crt'')
                  = Some (PemBlock ''CERTIFICATE'' (Raw peerCert)))
       \<and> (fst (promptTrustSelfSignedCert w endpoint aliasName s) \<noteq> Inr (Some peerCert)
            \<longrightarrow> (\<exists>err. fst (promptTrustSelfSignedCert w endpoint aliasName s) = Inl err)
                \<and> CAsDir (snd (promptTrustSelfSignedCert w endpoint aliasName s)) = CAsDir s)"
  using assms
  by (auto simp add: promptTrustSelfSignedCert_def fetchPeerCertificate_def Let_def
        split: option.splits)

theorem confirmation_decides_pinning_witness:
  "fst (promptTrustSelfSignedCert mock_world ''https://mock-endpoint'' ''test''
          (mock_state\<lparr>stdin := ''YES'' @ [CHR 0x0A]\<rparr>)) = Inr (Some self_signed_cert)
   \<and> CAsDir (snd (promptTrustSelfSignedCert mock_world ''https://mock-endpoint'' ''test''
          (mock_state\<lparr>stdin := ''YES'' @ [CHR 0x0A]\<rparr>))) ''test.crt''
       = Some (PemBlock ''CERTIFICATE'' (Raw self_signed_cert))
   \<and> fst (promptTrustSelfSignedCert mock_world ''https://mock-endpoint'' ''test''
          (mock_state\<lparr>stdin := ''no'' @ [CHR 0x0A]\<rparr>)) = Inl (NewError unknown_authority)
   \<and> CAsDir (snd (promptTrustSelfSignedCert mock_world ''https://mock-endpoint'' ''test''
          (mock_state\<lparr>stdin := ''no'' @ [CHR 0x0A]\<rparr>))) ''test.crt'' = None"
  using
    confirmation_decides_pinning [where w = mock_world and endpoint = "''https://mock-endpoint''"
      and scheme = "''https''" and tlsErr = unknown_authority and peerCert = self_signed_cert
      and rest = "[]" and s = "mock_state\<lparr>stdin := ''YES'' @ [CHR 0x0A]\<rparr>"
      and answer = "''YES'' @ [CHR 0x0A]" and remaining = "[]" and aliasName = "''test''"]
    confirmation_decides_pinning [where w = mock_world and endpoint = "''https://mock-endpoint''"
      and scheme = "''https''" and tlsErr = unknown_authority and peerCert = self_signed_cert
      and rest = "[]" and s = "mock_state\<lparr>stdin := ''no'' @ [CHR 0x0A]\<rparr>"
      and answer = "''no'' @ [CHR 0x0A]" and remaining = "[]" and aliasName = "''test''"]
  by (simp add: mock_defs prog_defs)

text \<open>
  Claim C9: when the first attempt, made with the process-wide root set, fails with an
  error whose text does not contain "certificate signed by unknown authority", trust
  negotiation returns that error and no certificate, after that single request and without
  printing, reading or writing anything; only for an unknown-authority error does it go on
  to fetch the peer certificate.
\<close>

theorem other_tls_failures_propagate:
  assumes "requestScheme w endpoint = Inr scheme"
    and "scheme \<noteq> ''http''"
    and "trustedDo w endpoint = Some tlsErr"
  shows "(\<not> Contains (Error tlsErr) ''certificate signed by unknown authority'' \<longrightarrow>
            promptTrustSelfSignedCert w endpoint aliasName s
              = (Inl (NewError tlsErr), s\<lparr>calls := calls s @ [TrustedGet endpoint]\<rparr>))
       \<and> (Contains (Error tlsErr) ''certificate signed by unknown authority'' \<longrightarrow>
            calls (snd (promptTrustSelfSignedCert w endpoint aliasName s))
              = calls s @ [TrustedGet endpoint, InsecureGet endpoint])"
  using assms
  by (auto simp add: promptTrustSelfSignedCert_def fetchPeerCertificate_def Let_def
        split: option.splits sum.splits prod.splits list.splits)

theorem other_tls_failures_propagate_witness:
  "Contains (Error (OtherError ''dial tcp: connection refused''))
      ''certificate signed by unknown authority'' = False
   \<and> fst (promptTrustSelfSignedCert refused_world ''https://mock-endpoint'' ''test'' mock_state)
       = Inl (NewError (OtherError ''dial tcp: connection refused''))
   \<and> calls (snd (promptTrustSelfSignedCert refused_world ''https://mock-endpoint'' ''test''
        mock_state)) = [TrustedGet ''https://mock-endpoint'']
   \<and> stdout (snd (promptTrustSelfSignedCert refused_world ''https://mock-endpoint'' ''test''
        mock_state)) = []
   \<and> calls (snd (promptTrustSelfSignedCert mock_world ''https://mock-endpoint'' ''test''
        mock_state)) = [TrustedGet ''https://mock-endpoint'', InsecureGet ''https://mock-endpoint'']"
  using
    other_tls_failures_propagate [where w = refused_world
      and endpoint = "''https://mock-endpoint''" and scheme = "''https''"
      and tlsErr = "OtherError ''dial tcp: connection refused''"
      and aliasName = "''test''" and s = mock_state]
    other_tls_failures_propagate [where w = mock_world
      and endpoint = "''https://mock-endpoint''" and scheme = "''https''"
      and tlsErr = unknown_authority and aliasName = "''test''" and s = mock_state]
  by (simp add: mock_defs prog_defs)

end
